theory Spec2Isabelle
  imports
    Main
    "HOL-Library.AList"
    "HOL-Library.Multiset"
    "HOL-Library.List_Lexorder"
    "HOL-Library.Char_ord"
    "HOL-Library.Product_Lexorder"
begin

section \<open>The data model of tixlbase/models.py\<close>

text \<open>
  Identifiers are the UUID strings of the versioning library, points in time are counted
  on an integer clock, and a \<^verbatim>\<open>DecimalField\<close> with two decimal places is counted in
  hundredths. Python compares strings and tuples lexicographically, which is the order
  the imported list and product orders give to \<^typ>\<open>string \<times> string\<close>.
\<close>

type_synonym uuid = string
type_synonym datetime = int
type_synonym decimal = int

text \<open>
  The exceptions the modelled methods can raise, each with its message.
  \<^verbatim>\<open>IntegrityError\<close> is the database's refusal of a write.
\<close>

datatype error = ValueError string | AttributeError string | IntegrityError string

text \<open>
  \<^verbatim>\<open>class Versionable(BaseVersionable)\<close>: the columns every versioned model has.
  \<open>pk\<close> is the primary key column \<^verbatim>\<open>id\<close> (the source reads it as \<^verbatim>\<open>self.pk\<close> and
  writes it as \<^verbatim>\<open>.id\<close>); it is \<open>None\<close> or empty on an instance that was never saved.
\<close>

record versionable =
  pk :: "uuid option"
  identity :: uuid
  version_start_date :: datetime
  version_end_date :: "datetime option"

text \<open>
  A foreign key attribute is modelled by the object it evaluates to, \<open>None\<close> when the
  attribute is \<^verbatim>\<open>None\<close> (the source guards its uses with \<^verbatim>\<open>if self.event:\<close>). A
  many-to-many relation is modelled by the list of rows its manager returns.
\<close>

text \<open>
  \<^verbatim>\<open>class Organizer\<close>: its columns (\<^verbatim>\<open>permitted\<close> is a many-to-many relation through
  OrganizerPermission and no column). \<^verbatim>\<open>slug\<close> is declared \<^verbatim>\<open>unique=True\<close>.
\<close>

record organizer = versionable +
  organizer_name :: string
  organizer_slug :: string

record event = versionable +
  event_organizer_id :: uuid
  event_name :: string
  event_slug :: string
  event_locale :: string
  event_timezone :: string
  event_currency :: string
  event_date_from :: datetime
  event_date_to :: "datetime option"
  event_show_date_to :: bool
  event_show_times :: bool
  event_presale_end :: "datetime option"
  event_presale_start :: "datetime option"
  event_payment_term_days :: nat
  event_payment_term_last :: "datetime option"
  event_plugins :: "string option"

record itemcategory = versionable +
  category_event :: "event option"
  category_name :: string
  category_position :: int

record property = versionable +
  property_event :: "event option"
  property_name :: string

text \<open>
  \<^verbatim>\<open>PropertyValue\<close>: \<open>pv_prop_id\<close> is the raw foreign key column \<^verbatim>\<open>prop_id\<close>,
  \<open>pv_prop\<close> the Property object that \<^verbatim>\<open>self.prop\<close> evaluates to. The source reads
  both, so the model keeps both.
\<close>

record property_value = versionable +
  pv_prop_id :: uuid
  pv_prop :: "property option"
  pv_value :: string
  pv_position :: int

record question = versionable +
  question_event :: "event option"
  question_question :: string
  question_type :: string
  question_required :: bool

record item = versionable +
  item_event :: "event option"
  item_category :: "itemcategory option"
  item_name :: string
  item_active :: bool
  item_deleted :: bool
  item_short_description :: "string option"
  item_long_description :: "string option"
  item_default_price :: "decimal option"
  item_tax_rate :: "decimal option"

record item_variation = versionable +
  variation_item :: "item option"
  variation_values :: "property_value list"
  variation_active :: bool
  variation_default_price :: "decimal option"

record base_restriction = versionable +
  restriction_event :: "event option"
  restriction_item :: "item option"
  restriction_variations :: "item_variation list"

record quota = versionable +
  quota_event :: "event option"
  quota_name :: string
  quota_size :: nat
  quota_items :: "item list"
  quota_variations :: "item_variation list"
  quota_order_cache :: "nat list"
  quota_lock_cache :: "nat list"

section \<open>Side effects\<close>

text \<open>
  A method's side effects outside the instance it is called on are writes of a row to the
  database and calls of \<^verbatim>\<open>clear()\<close> on the cache handle that
  \<^verbatim>\<open>event.get_cache()\<close> returns. The world is the sequence of these effects, in the
  order they happened; a method appends to it.
\<close>

datatype entity =
  EOrganizer organizer
| EEvent event
| EItemCategory itemcategory
| EProperty property
| EPropertyValue property_value
| EQuestion question
| EItem item
| EItemVariation item_variation
| ERestriction base_restriction
| EQuota quota

datatype effect = DbSave entity | DbDelete entity | CacheClear event

text \<open>
  The inherited \<^verbatim>\<open>save\<close> and \<^verbatim>\<open>delete\<close> (what \<^verbatim>\<open>super().save()\<close> and
  \<^verbatim>\<open>super().delete()\<close> reach): one database effect on the instance's row. The
  versioning library that implements them is not part of the source; how its
  \<^verbatim>\<open>delete\<close> ends a row is left inside the one effect \<open>DbDelete\<close>.
\<close>

definition Model_save :: "entity \<Rightarrow> effect list \<Rightarrow> effect list" where
  "Model_save row log = log @ [DbSave row]"

definition Model_delete :: "entity \<Rightarrow> effect list \<Rightarrow> effect list" where
  "Model_delete row log = log @ [DbDelete row]"

text \<open>\<^verbatim>\<open>event.get_cache().clear()\<close>\<close>

definition get_cache_clear :: "event \<Rightarrow> effect list \<Rightarrow> effect list" where
  "get_cache_clear ev log = log @ [CacheClear ev]"

text \<open>\<^verbatim>\<open>if self.event: self.event.get_cache().clear()\<close>\<close>

definition clear_if_event :: "event option \<Rightarrow> effect list \<Rightarrow> effect list" where
  "clear_if_event ev log = (case ev of None \<Rightarrow> log | Some e \<Rightarrow> get_cache_clear e log)"

section \<open>Versionable.clone_shallow\<close>

text \<open>Python's truth value of a string attribute that may be \<^verbatim>\<open>None\<close>.\<close>

definition truthy_str :: "string option \<Rightarrow> bool" where
  "truthy_str s = (case s of None \<Rightarrow> False | Some t \<Rightarrow> t \<noteq> [])"

text \<open>
  Lines 41 to 56: the copy, the two assignments to the copy, the two assignments to
  \<^verbatim>\<open>self\<close> (which \<^verbatim>\<open>earlier_version\<close> aliases), and the two saves. \<open>save\<close> is the
  \<^verbatim>\<open>save\<close> method of the instance's class: it returns the exception it raises, if
  any, and the effects. \<open>uuid4\<close> is the string that \<^verbatim>\<open>six.u(str(uuid.uuid4()))\<close>
  returns. The result is the returned object or the exception, \<^verbatim>\<open>self\<close> after the
  call, and the effects after the call.
\<close>

definition clone_shallow_copy ::
  "('a versionable_scheme \<Rightarrow> effect list \<Rightarrow> (error + unit) \<times> effect list) \<Rightarrow>
   'a versionable_scheme \<Rightarrow> datetime \<Rightarrow> uuid \<Rightarrow> effect list \<Rightarrow>
   (error + 'a versionable_scheme) \<times> 'a versionable_scheme \<times> effect list" where
  "clone_shallow_copy save self forced_version_date uuid4 log =
     (let earlier_version = self;
          later_version = earlier_version;
          later_version = later_version\<lparr>version_end_date := None\<rparr>;
          later_version = later_version\<lparr>version_start_date := forced_version_date\<rparr>;
          earlier_version = earlier_version\<lparr>pk := Some uuid4\<rparr>;
          earlier_version = earlier_version\<lparr>version_end_date := Some forced_version_date\<rparr>
      in (case save earlier_version log of
            (Inl e, log) \<Rightarrow> (Inl e, earlier_version, log)
          | (Inr _, log) \<Rightarrow>
              (case save later_version log of
                 (Inl e, log) \<Rightarrow> (Inl e, earlier_version, log)
               | (Inr _, log) \<Rightarrow> (Inr later_version, earlier_version, log))))"

text \<open>
  Lines 29 to 39: the three checks, in the source's order. Each \<^verbatim>\<open>raise\<close> returns the
  instance and the effects as they are at that point. \<open>get_utc_now\<close> is the clock's
  reading during the call.
\<close>

definition clone_shallow ::
  "('a versionable_scheme \<Rightarrow> effect list \<Rightarrow> (error + unit) \<times> effect list) \<Rightarrow>
   'a versionable_scheme \<Rightarrow> datetime option \<Rightarrow> datetime \<Rightarrow> uuid \<Rightarrow> effect list \<Rightarrow>
   (error + 'a versionable_scheme) \<times> 'a versionable_scheme \<times> effect list" where
  "clone_shallow save self forced_version_date get_utc_now uuid4 log =
     (if \<not> truthy_str (pk self) then
        (Inl (ValueError ''Instance must be saved before it can be cloned''), self, log)
      else if version_end_date self \<noteq> None then
        (Inl (ValueError ''This is a historical item and can not be cloned.''), self, log)
      else
        (case forced_version_date of
           Some d \<Rightarrow>
             if \<not> (version_start_date self \<le> d \<and> d \<le> get_utc_now) then
               (Inl (ValueError ''The clone date must be between the version start date and now.''),
                self, log)
             else clone_shallow_copy save self d uuid4 log
         | None \<Rightarrow> clone_shallow_copy save self get_utc_now uuid4 log))"

text \<open>The timestamp a clone is made at: the one supplied, else the clock's reading.\<close>

definition clone_date :: "datetime option \<Rightarrow> datetime \<Rightarrow> datetime" where
  "clone_date forced_version_date get_utc_now =
     (case forced_version_date of Some d \<Rightarrow> d | None \<Rightarrow> get_utc_now)"

section \<open>save and delete of the models an Event owns\<close>

text \<open>A \<^verbatim>\<open>save\<close> or \<^verbatim>\<open>delete\<close> that raises nothing, as one that may raise.\<close>

definition returns ::
  "('s \<Rightarrow> effect list \<Rightarrow> effect list) \<Rightarrow> 's \<Rightarrow> effect list \<Rightarrow>
   (error + unit) \<times> effect list" where
  "returns method self log = (Inr (), method self log)"




text \<open>\<^verbatim>\<open>Event.save\<close>\<close>

definition Event_save :: "'a event_scheme \<Rightarrow> effect list \<Rightarrow> effect list" where
  "Event_save self log =
     get_cache_clear (event.truncate self) (Model_save (EEvent (event.truncate self)) log)"

text \<open>\<^verbatim>\<open>ItemCategory.delete\<close>, \<^verbatim>\<open>ItemCategory.save\<close>\<close>

definition ItemCategory_delete :: "itemcategory \<Rightarrow> effect list \<Rightarrow> effect list" where
  "ItemCategory_delete self log =
     clear_if_event (category_event self) (Model_delete (EItemCategory self) log)"

definition ItemCategory_save :: "itemcategory \<Rightarrow> effect list \<Rightarrow> effect list" where
  "ItemCategory_save self log =
     clear_if_event (category_event self) (Model_save (EItemCategory self) log)"

text \<open>\<^verbatim>\<open>Property.delete\<close>, \<^verbatim>\<open>Property.save\<close>\<close>

definition Property_delete :: "property \<Rightarrow> effect list \<Rightarrow> effect list" where
  "Property_delete self log =
     clear_if_event (property_event self) (Model_delete (EProperty self) log)"

definition Property_save :: "property \<Rightarrow> effect list \<Rightarrow> effect list" where
  "Property_save self log =
     clear_if_event (property_event self) (Model_save (EProperty self) log)"

text \<open>
  \<^verbatim>\<open>PropertyValue.delete\<close>, \<^verbatim>\<open>PropertyValue.save\<close>: the guard is on \<^verbatim>\<open>self.prop\<close>, and
  \<^verbatim>\<open>self.prop.event.get_cache()\<close> is not guarded, so an event that is \<^verbatim>\<open>None\<close> raises
  after the row was written. The result is the exception if one is raised, and the
  effects up to that point.
\<close>

definition PropertyValue_clear ::
  "property_value \<Rightarrow> effect list \<Rightarrow> (error + unit) \<times> effect list" where
  "PropertyValue_clear self log =
     (case pv_prop self of
        None \<Rightarrow> (Inr (), log)
      | Some p \<Rightarrow>
          (case property_event p of
             None \<Rightarrow> (Inl (AttributeError ''get_cache''), log)
           | Some e \<Rightarrow> (Inr (), get_cache_clear e log)))"

definition PropertyValue_delete ::
  "property_value \<Rightarrow> effect list \<Rightarrow> (error + unit) \<times> effect list" where
  "PropertyValue_delete self log = PropertyValue_clear self (Model_delete (EPropertyValue self) log)"

definition PropertyValue_save ::
  "property_value \<Rightarrow> effect list \<Rightarrow> (error + unit) \<times> effect list" where
  "PropertyValue_save self log = PropertyValue_clear self (Model_save (EPropertyValue self) log)"

text \<open>\<^verbatim>\<open>Question.delete\<close>, \<^verbatim>\<open>Question.save\<close>\<close>

definition Question_delete :: "question \<Rightarrow> effect list \<Rightarrow> effect list" where
  "Question_delete self log =
     clear_if_event (question_event self) (Model_delete (EQuestion self) log)"

definition Question_save :: "question \<Rightarrow> effect list \<Rightarrow> effect list" where
  "Question_save self log =
     clear_if_event (question_event self) (Model_save (EQuestion self) log)"

text \<open>
  \<^verbatim>\<open>Item.save\<close> and \<^verbatim>\<open>Item.delete\<close>. An Item instance can carry attributes beyond its
  columns (the memo of \<^verbatim>\<open>get_all_variations\<close>), so both take any extension of the
  record; the row written is the columns. \<^verbatim>\<open>delete\<close> assigns two attributes of
  \<^verbatim>\<open>self\<close> and calls the inherited \<^verbatim>\<open>save\<close>, not \<^verbatim>\<open>Item.save\<close>.
\<close>

definition Item_save :: "'a item_scheme \<Rightarrow> effect list \<Rightarrow> effect list" where
  "Item_save self log =
     clear_if_event (item_event self) (Model_save (EItem (item.truncate self)) log)"

definition Item_delete :: "'a item_scheme \<Rightarrow> effect list \<Rightarrow> 'a item_scheme \<times> effect list" where
  "Item_delete self log =
     (let self = self\<lparr>item_deleted := True\<rparr>;
          self = self\<lparr>item_active := False\<rparr>;
          log = Model_save (EItem (item.truncate self)) log;
          log = clear_if_event (item_event self) log
      in (self, log))"

text \<open>
  \<^verbatim>\<open>ItemVariation.delete\<close>, \<^verbatim>\<open>ItemVariation.save\<close>: the guard is on \<^verbatim>\<open>self.item\<close>,
  and \<^verbatim>\<open>self.item.event.get_cache()\<close> is not guarded.
\<close>

definition ItemVariation_clear ::
  "item_variation \<Rightarrow> effect list \<Rightarrow> (error + unit) \<times> effect list" where
  "ItemVariation_clear self log =
     (case variation_item self of
        None \<Rightarrow> (Inr (), log)
      | Some i \<Rightarrow>
          (case item_event i of
             None \<Rightarrow> (Inl (AttributeError ''get_cache''), log)
           | Some e \<Rightarrow> (Inr (), get_cache_clear e log)))"

definition ItemVariation_delete ::
  "item_variation \<Rightarrow> effect list \<Rightarrow> (error + unit) \<times> effect list" where
  "ItemVariation_delete self log = ItemVariation_clear self (Model_delete (EItemVariation self) log)"

definition ItemVariation_save ::
  "item_variation \<Rightarrow> effect list \<Rightarrow> (error + unit) \<times> effect list" where
  "ItemVariation_save self log = ItemVariation_clear self (Model_save (EItemVariation self) log)"

text \<open>\<^verbatim>\<open>BaseRestriction.delete\<close>, \<^verbatim>\<open>BaseRestriction.save\<close>\<close>

definition BaseRestriction_delete :: "base_restriction \<Rightarrow> effect list \<Rightarrow> effect list" where
  "BaseRestriction_delete self log =
     clear_if_event (restriction_event self) (Model_delete (ERestriction self) log)"

definition BaseRestriction_save :: "base_restriction \<Rightarrow> effect list \<Rightarrow> effect list" where
  "BaseRestriction_save self log =
     clear_if_event (restriction_event self) (Model_save (ERestriction self) log)"

text \<open>
  \<^verbatim>\<open>class Quota\<close> defines neither \<^verbatim>\<open>save\<close> nor \<^verbatim>\<open>delete\<close>: a call on a Quota
  reaches the inherited methods.
\<close>

definition Quota_save :: "quota \<Rightarrow> effect list \<Rightarrow> effect list" where
  "Quota_save self log = Model_save (EQuota self) log"

definition Quota_delete :: "quota \<Rightarrow> effect list \<Rightarrow> effect list" where
  "Quota_delete self log = Model_delete (EQuota self) log"

section \<open>Item.get_all_variations\<close>

text \<open>
  \<^verbatim>\<open>VariationDict\<close> (tixlbase.types) differs from a dict only by some extra methods. Its
  keys are the identities of Properties, bound to PropertyValue objects, and the special
  key \<^verbatim>\<open>'variation'\<close>, bound to an ItemVariation. The entries under Property identities
  are kept in insertion order, as a Python dict keeps them; the entry under the special
  key is a field of its own, since an identity is a UUID string.
\<close>

record variation_dict =
  vd_values :: "(uuid \<times> property_value) list"
  vd_variation :: "item_variation option"

text \<open>\<^verbatim>\<open>VariationDict()\<close>\<close>

definition VariationDict :: variation_dict where
  "VariationDict = \<lparr>vd_values = [], vd_variation = None\<rparr>"

text \<open>
  An Item instance in memory: the columns and the attribute
  \<^verbatim>\<open>_get_all_variations_cache\<close>, which is \<open>None\<close> while the instance has no such
  attribute (\<^verbatim>\<open>hasattr\<close> is false).
\<close>

record item_instance = item +
  get_all_variations_cache :: "variation_dict list option"

text \<open>
  What the database returns for the two queries of the method at the time of a call:
  \<^verbatim>\<open>self.variations.all()\<close>, each ItemVariation with its prefetched values, and
  \<^verbatim>\<open>self.properties.all()\<close>, each Property paired with the rows of its
  \<^verbatim>\<open>values\<close> relation.
\<close>

record item_relations =
  variations_all :: "item_variation list"
  properties_all :: "(property \<times> property_value list) list"

text \<open>
  \<^verbatim>\<open>.values.all()\<close> on rows of PropertyValue, whose \<^verbatim>\<open>Meta.ordering\<close> is
  \<^verbatim>\<open>("position",)\<close>: the rows by ascending position. (Rows of equal position keep the
  order they are given in; the database leaves that order open.)
\<close>

definition values_all :: "property_value list \<Rightarrow> property_value list" where
  "values_all rows = sort_key pv_position rows"

text \<open>Lines 666 to 669: the key an ItemVariation is indexed under.\<close>

definition variation_key :: "item_variation \<Rightarrow> (uuid \<times> uuid) list" where
  "variation_key var =
     sort (map (\<lambda>v. (pv_prop_id v, identity v)) (values_all (variation_values var)))"

text \<open>Lines 664 to 670: the dict \<^verbatim>\<open>variations_cache\<close>; a later ItemVariation replaces an
  earlier one of the same key.\<close>

definition build_variations_cache ::
  "item_variation list \<Rightarrow> ((uuid \<times> uuid) list \<rightharpoonup> item_variation)" where
  "build_variations_cache all_variations =
     foldl (\<lambda>variations_cache var. variations_cache(variation_key var \<mapsto> var))
       Map.empty all_variations"

text \<open>
  \<^verbatim>\<open>itertools.product(*pools)\<close>, as the Python documentation defines it: starting
  from one empty tuple, each pool extends every tuple built so far by each of its
  elements.
\<close>

definition itertools_product :: "'a list list \<Rightarrow> 'a list list" where
  "itertools_product pools =
     foldl (\<lambda>result pool. concat (map (\<lambda>x. map (\<lambda>y. x @ [y]) pool) result)) [[]] pools"

text \<open>
  Lines 679 to 681: the loop over one combination, which appends to \<^verbatim>\<open>key\<close> and
  assigns into \<^verbatim>\<open>var\<close>. \<^verbatim>\<open>v.prop.identity\<close> raises when \<^verbatim>\<open>v.prop\<close> is \<^verbatim>\<open>None\<close>.
\<close>

fun comb_loop ::
  "property_value list \<Rightarrow> (uuid \<times> uuid) list \<Rightarrow> (uuid \<times> property_value) list \<Rightarrow>
   error + ((uuid \<times> uuid) list \<times> (uuid \<times> property_value) list)" where
  "comb_loop [] key var = Inr (key, var)"
| "comb_loop (v # comb) key var =
     (case pv_prop v of
        None \<Rightarrow> Inl (AttributeError ''identity'')
      | Some p \<Rightarrow>
          comb_loop comb (key @ [(identity p, identity v)]) (AList.update (identity p) v var))"

text \<open>Lines 673 to 685: the loop over the combinations, which appends to \<^verbatim>\<open>result\<close>.\<close>

fun product_loop ::
  "((uuid \<times> uuid) list \<rightharpoonup> item_variation) \<Rightarrow> property_value list list \<Rightarrow>
   variation_dict list \<Rightarrow> error + variation_dict list" where
  "product_loop variations_cache [] result = Inr result"
| "product_loop variations_cache (comb # combs) result =
     (if length comb = 0 then
        product_loop variations_cache combs (result @ [VariationDict])
      else
        (case comb_loop comb [] [] of
           Inl e \<Rightarrow> Inl e
         | Inr (key, var) \<Rightarrow>
             (let key = sort key;
                  var = \<lparr>vd_values = var, vd_variation = None\<rparr>;
                  var = (if variations_cache key \<noteq> None
                         then var\<lparr>vd_variation := variations_cache key\<rparr> else var)
              in product_loop variations_cache combs (result @ [var]))))"

text \<open>The combinations the loop runs over (line 673).\<close>

definition combinations :: "item_relations \<Rightarrow> property_value list list" where
  "combinations rel =
     itertools_product (map (\<lambda>prop. values_all (snd prop)) (properties_all rel))"

text \<open>Lines 662 to 685: the computation of \<^verbatim>\<open>result\<close>.\<close>

definition compute_all_variations :: "item_relations \<Rightarrow> error + variation_dict list" where
  "compute_all_variations rel =
     (let all_variations = variations_all rel;
          variations_cache = build_variations_cache all_variations
      in product_loop variations_cache (combinations rel) [])"

text \<open>
  \<^verbatim>\<open>Item.get_all_variations(self, use_cache)\<close>: the returned list or the exception, and
  the instance after the call.
\<close>

definition get_all_variations ::
  "item_instance \<Rightarrow> item_relations \<Rightarrow> bool \<Rightarrow> (error + variation_dict list) \<times> item_instance" where
  "get_all_variations self rel use_cache =
     (case (if use_cache then get_all_variations_cache self else None) of
        Some memo \<Rightarrow> (Inr memo, self)
      | None \<Rightarrow>
          (case compute_all_variations rel of
             Inl e \<Rightarrow> (Inl e, self)
           | Inr result \<Rightarrow> (Inr result, self\<lparr>get_all_variations_cache := Some result\<rparr>)))"

section \<open>Order.STATUS_CHOICE\<close>

definition STATUS_PENDING :: string where "STATUS_PENDING = ''n''"
definition STATUS_PAID :: string where "STATUS_PAID = ''p''"
definition STATUS_EXPIRED :: string where "STATUS_EXPIRED = ''e''"
definition STATUS_CANCELLED :: string where "STATUS_CANCELLED = ''c''"

definition STATUS_CHOICE :: "(string \<times> string) list" where
  "STATUS_CHOICE =
     [(STATUS_PAID, ''pending''),
      (STATUS_PENDING, ''paid''),
      (STATUS_EXPIRED, ''expired''),
      (STATUS_CANCELLED, ''cancelled'')]"

section \<open>The signature of a combination\<close>

text \<open>
  The specification's signature of a set of PropertyValues: the sorted list of its
  (property identity, value identity) pairs, where the property identity of a value is
  the identity of the Property it belongs to. These two definitions follow the
  specification's words; the method's own keys are \<open>variation_key\<close> and the key built
  by \<open>comb_loop\<close>.
\<close>

definition prop_identity :: "property_value \<Rightarrow> uuid" where
  "prop_identity v = identity (the (pv_prop v))"

definition signature :: "property_value list \<Rightarrow> (uuid \<times> uuid) list" where
  "signature vs = sort (map (\<lambda>v. (prop_identity v, identity v)) vs)"

section \<open>A concrete event\<close>

text \<open>
  One event with a T-shirt item of two properties, Size (M before L) and Colour (red
  before blue), and an ItemVariation for the combination (L, red). The rows of Size are
  stored out of position order.
\<close>

definition example_event :: event where
  "example_event =
     \<lparr>pk = Some ''ev-1'', identity = ''ev-1'', version_start_date = 0, version_end_date = None,
      event_organizer_id = ''org-1'', event_name = ''Conference'', event_slug = ''conf'',
      event_locale = ''en'', event_timezone = ''UTC'', event_currency = ''EUR'',
      event_date_from = 1000, event_date_to = None, event_show_date_to = True,
      event_show_times = True, event_presale_end = None, event_presale_start = None,
      event_payment_term_days = 14, event_payment_term_last = None, event_plugins = None\<rparr>"

definition example_item :: item_instance where
  "example_item =
     \<lparr>pk = Some ''item-1'', identity = ''item-1'', version_start_date = 10,
      version_end_date = None, item_event = Some example_event, item_category = None,
      item_name = ''T-Shirt'', item_active = True, item_deleted = False,
      item_short_description = None, item_long_description = None,
      item_default_price = Some 1200, item_tax_rate = Some 1900,
      get_all_variations_cache = None\<rparr>"

definition size_property :: property where
  "size_property =
     \<lparr>pk = Some ''p-size'', identity = ''p-size'', version_start_date = 0,
      version_end_date = None, property_event = Some example_event, property_name = ''Size''\<rparr>"

definition colour_property :: property where
  "colour_property =
     \<lparr>pk = Some ''p-colour'', identity = ''p-colour'', version_start_date = 0,
      version_end_date = None, property_event = Some example_event,
      property_name = ''Colour''\<rparr>"

definition size_value :: "uuid \<Rightarrow> string \<Rightarrow> int \<Rightarrow> property_value" where
  "size_value i v n =
     \<lparr>pk = Some i, identity = i, version_start_date = 0, version_end_date = None,
      pv_prop_id = ''p-size'', pv_prop = Some size_property, pv_value = v, pv_position = n\<rparr>"

definition colour_value :: "uuid \<Rightarrow> string \<Rightarrow> int \<Rightarrow> property_value" where
  "colour_value i v n =
     \<lparr>pk = Some i, identity = i, version_start_date = 0, version_end_date = None,
      pv_prop_id = ''p-colour'', pv_prop = Some colour_property, pv_value = v,
      pv_position = n\<rparr>"

definition value_M :: property_value where "value_M = size_value ''v-m'' ''M'' 0"
definition value_L :: property_value where "value_L = size_value ''v-l'' ''L'' 1"
definition value_red :: property_value where "value_red = colour_value ''v-red'' ''red'' 0"
definition value_blue :: property_value where "value_blue = colour_value ''v-blue'' ''blue'' 1"

definition example_variation :: "property_value list \<Rightarrow> item_variation" where
  "example_variation vs =
     \<lparr>pk = Some ''var-1'', identity = ''var-1'', version_start_date = 20,
      version_end_date = None, variation_item = Some (item.truncate example_item),
      variation_values = vs, variation_active = False, variation_default_price = None\<rparr>"

definition variation_L_red :: item_variation where
  "variation_L_red = example_variation [value_red, value_L]"

definition example_properties :: "(property \<times> property_value list) list" where
  "example_properties =
     [(size_property, [value_L, value_M]), (colour_property, [value_red, value_blue])]"

definition example_relations :: item_relations where
  "example_relations = \<lparr>variations_all = [variation_L_red], properties_all = example_properties\<rparr>"

definition example_result :: "variation_dict list" where
  "example_result =
     [\<lparr>vd_values = [(''p-size'', value_M), (''p-colour'', value_red)], vd_variation = None\<rparr>,
      \<lparr>vd_values = [(''p-size'', value_M), (''p-colour'', value_blue)], vd_variation = None\<rparr>,
      \<lparr>vd_values = [(''p-size'', value_L), (''p-colour'', value_red)],
       vd_variation = Some variation_L_red\<rparr>,
      \<lparr>vd_values = [(''p-size'', value_L), (''p-colour'', value_blue)], vd_variation = None\<rparr>]"

text \<open>The same item with no property, and an ItemVariation that has no value.\<close>

definition plain_variation :: item_variation where
  "plain_variation = example_variation []"

definition plain_relations :: item_relations where
  "plain_relations = \<lparr>variations_all = [plain_variation], properties_all = []\<rparr>"

text \<open>
  The relations before the ItemVariation for (L, red) was saved, and what a call computes
  from them.
\<close>

definition relations_before :: item_relations where
  "relations_before = \<lparr>variations_all = [], properties_all = example_properties\<rparr>"

definition stale_result :: "variation_dict list" where
  "stale_result =
     [\<lparr>vd_values = [(''p-size'', value_M), (''p-colour'', value_red)], vd_variation = None\<rparr>,
      \<lparr>vd_values = [(''p-size'', value_M), (''p-colour'', value_blue)], vd_variation = None\<rparr>,
      \<lparr>vd_values = [(''p-size'', value_L), (''p-colour'', value_red)], vd_variation = None\<rparr>,
      \<lparr>vd_values = [(''p-size'', value_L), (''p-colour'', value_blue)], vd_variation = None\<rparr>]"



text \<open>A quota of that event.\<close>

definition example_quota :: quota where
  "example_quota =
     \<lparr>pk = Some ''quota-1'', identity = ''quota-1'', version_start_date = 0,
      version_end_date = None, quota_event = Some example_event, quota_name = ''VIP'',
      quota_size = 1, quota_items = [item.truncate example_item], quota_variations = [],
      quota_order_cache = [], quota_lock_cache = []\<rparr>"

lemmas example_defs = example_event_def example_item_def size_property_def colour_property_def
  size_value_def colour_value_def value_M_def value_L_def value_red_def value_blue_def
  example_variation_def variation_L_red_def example_properties_def example_relations_def

section \<open>Versionable.clone_shallow: when it raises and what it returns\<close>




text \<open>
  Claim C6. When \<^verbatim>\<open>clone_shallow\<close> returns, with \<open>t\<close> the clone date (the one supplied,
  else now): the instance it was called on is the old row, closed at \<open>t\<close> and re-keyed
  under the generated UUID; the returned object has the start date \<open>t\<close>, no end date,
  the original primary key and identity, and every other field as before; and both were
  saved, the old row first.
\<close>

theorem clone_shallow_success:
  assumes "clone_shallow save self forced_version_date get_utc_now uuid4 log =
             (Inr later_version, earlier_version, log')"
  shows "earlier_version =
           self\<lparr>pk := Some uuid4,
                version_end_date := Some (clone_date forced_version_date get_utc_now)\<rparr> \<and>
         later_version =
           self\<lparr>version_start_date := clone_date forced_version_date get_utc_now,
                version_end_date := None\<rparr> \<and>
         pk later_version = pk self \<and> identity later_version = identity self \<and>
         versionable.more later_version = versionable.more self \<and>
         (\<exists>log1. save earlier_version log = (Inr (), log1) \<and>
                 save later_version log1 = (Inr (), log'))"
proof -
  have copy: "clone_shallow_copy save self (clone_date forced_version_date get_utc_now) uuid4 log =
               (Inr later_version, earlier_version, log')"
    using assms
    by (auto simp: clone_shallow_def clone_date_def split: if_splits option.splits)
  then show ?thesis
    by (auto simp: clone_shallow_copy_def Let_def split: prod.splits sum.splits)
qed

theorem clone_shallow_success_witness:
  "fst (clone_shallow (returns Item_save) example_item (Some 15) 20 ''fresh'' []) =
     Inr (example_item\<lparr>version_start_date := 15, version_end_date := None\<rparr>) \<and>
   fst (snd (clone_shallow (returns Item_save) example_item (Some 15) 20 ''fresh'' [])) =
     example_item\<lparr>pk := Some ''fresh'', version_end_date := Some 15\<rparr> \<and>
   pk (example_item\<lparr>version_start_date := 15, version_end_date := None\<rparr>) = Some ''item-1''"
proof -
  let ?call = "clone_shallow (returns Item_save) example_item (Some 15) 20 ''fresh'' []"
  have r: "?call =
      (Inr (example_item\<lparr>version_start_date := 15, version_end_date := None\<rparr>),
       example_item\<lparr>pk := Some ''fresh'', version_end_date := Some 15\<rparr>,
       snd (snd ?call))"
    by (simp add: clone_shallow_def clone_shallow_copy_def truthy_str_def returns_def Let_def
          example_item_def)
  have later: "fst ?call =
      Inr (example_item\<lparr>version_start_date := 15, version_end_date := None\<rparr>)"
    by (subst r) (rule fst_conv)
  have earlier: "fst (snd ?call) =
      example_item\<lparr>pk := Some ''fresh'', version_end_date := Some 15\<rparr>"
    by (subst r) simp
  have key: "pk (example_item\<lparr>version_start_date := 15, version_end_date := None\<rparr>) =
      Some ''item-1''"
    by (simp add: example_item_def)
  from clone_shallow_success [OF r] later earlier key show ?thesis
    by simp
qed

section \<open>Item.get_all_variations: the loops\<close>

lemma comb_loop_Inr:
  "comb_loop comb key var = Inr (k, d) \<Longrightarrow>
     (\<forall>v\<in>set comb. pv_prop v \<noteq> None) \<and>
     k = key @ map (\<lambda>v. (prop_identity v, identity v)) comb \<and>
     d = fold (\<lambda>v. AList.update (prop_identity v) v) comb var"
proof (induction comb arbitrary: key var)
  case Nil
  then show ?case by simp
next
  case (Cons v comb)
  from Cons.prems obtain p where p: "pv_prop v = Some p"
    by (auto split: option.splits)
  with Cons.prems have
    "comb_loop comb (key @ [(identity p, identity v)]) (AList.update (identity p) v var) = Inr (k, d)"
    by simp
  from Cons.IH [OF this] p show ?case
    by (simp add: prop_identity_def)
qed

lemma comb_loop_total:
  "\<forall>v\<in>set comb. pv_prop v \<noteq> None \<Longrightarrow> \<exists>k d. comb_loop comb key var = Inr (k, d)"
  by (induction comb arbitrary: key var) auto

lemma fold_update_distinct:
  "distinct (map f comb) \<Longrightarrow> f ` set comb \<inter> fst ` set al = {} \<Longrightarrow>
     fold (\<lambda>v. AList.update (f v) v) comb al = al @ map (\<lambda>v. (f v, v)) comb"
proof (induction comb arbitrary: al)
  case Nil
  then show ?case by simp
next
  case (Cons v comb)
  have fresh: "f v \<notin> fst ` set al"
    using Cons.prems(2) by auto
  then have upd: "AList.update (f v) v al = al @ [(f v, v)]"
    by (induction al) auto
  have "f ` set comb \<inter> fst ` set (al @ [(f v, v)]) = {}"
    using Cons.prems by auto
  with Cons.IH [of "al @ [(f v, v)]"] Cons.prems(1) upd show ?case
    by simp
qed

lemma product_loop_Inr:
  "product_loop variations_cache combs acc = Inr result \<Longrightarrow>
     \<exists>bindings. result = acc @ bindings \<and>
       list_all2 (\<lambda>comb binding.
         if comb = [] then binding = VariationDict
         else (\<forall>v\<in>set comb. pv_prop v \<noteq> None) \<and>
              vd_variation binding = variations_cache (signature comb) \<and>
              vd_values binding = fold (\<lambda>v. AList.update (prop_identity v) v) comb [])
         combs bindings"
proof (induction combs arbitrary: acc)
  case Nil
  then show ?case by simp
next
  case (Cons comb combs)
  show ?case
  proof (cases "comb = []")
    case True
    with Cons.prems have "product_loop variations_cache combs (acc @ [VariationDict]) = Inr result"
      by simp
    from Cons.IH [OF this] obtain bindings where
      "result = (acc @ [VariationDict]) @ bindings"
      "list_all2 (\<lambda>comb binding.
         if comb = [] then binding = VariationDict
         else (\<forall>v\<in>set comb. pv_prop v \<noteq> None) \<and>
              vd_variation binding = variations_cache (signature comb) \<and>
              vd_values binding = fold (\<lambda>v. AList.update (prop_identity v) v) comb [])
         combs bindings"
      by blast
    with True show ?thesis
      by (intro exI [of _ "VariationDict # bindings"]) simp
  next
    case False
    with Cons.prems obtain k d where kd: "comb_loop comb [] [] = Inr (k, d)"
      by (auto split: sum.splits)
    let ?b = "\<lparr>vd_values = d, vd_variation = variations_cache (sort k)\<rparr>"
    have rest: "product_loop variations_cache combs (acc @ [?b]) = Inr result"
      using Cons.prems False kd by (auto simp: Let_def split: if_splits)
    from comb_loop_Inr [OF kd] have
      "\<forall>v\<in>set comb. pv_prop v \<noteq> None" "sort k = signature comb"
      "d = fold (\<lambda>v. AList.update (prop_identity v) v) comb []"
      by (simp_all add: signature_def)
    moreover from Cons.IH [OF rest] obtain bindings where
      "result = (acc @ [?b]) @ bindings"
      "list_all2 (\<lambda>comb binding.
         if comb = [] then binding = VariationDict
         else (\<forall>v\<in>set comb. pv_prop v \<noteq> None) \<and>
              vd_variation binding = variations_cache (signature comb) \<and>
              vd_values binding = fold (\<lambda>v. AList.update (prop_identity v) v) comb [])
         combs bindings"
      by blast
    ultimately show ?thesis
      using False by (intro exI [of _ "?b # bindings"]) simp
  qed
qed

lemma foldl_cache_Some:
  "foldl (\<lambda>c var. c(variation_key var \<mapsto> var)) m vars key = Some var \<Longrightarrow>
     (var \<in> set vars \<and> variation_key var = key) \<or> m key = Some var"
  by (induction vars arbitrary: m) (fastforce split: if_splits)+

lemma foldl_cache_dom:
  "dom (foldl (\<lambda>c var. c(variation_key var \<mapsto> var)) m vars) = dom m \<union> variation_key ` set vars"
  by (induction vars arbitrary: m) auto

lemma variations_cache_Some:
  "build_variations_cache vars key = Some var \<Longrightarrow> var \<in> set vars \<and> variation_key var = key"
  using foldl_cache_Some [of Map.empty vars key var] by (simp add: build_variations_cache_def)

lemma variations_cache_defined:
  "(build_variations_cache vars key \<noteq> None) = (\<exists>var\<in>set vars. variation_key var = key)"
proof
  assume "build_variations_cache vars key \<noteq> None"
  then obtain var where "build_variations_cache vars key = Some var"
    by auto
  from variations_cache_Some [OF this] show "\<exists>var\<in>set vars. variation_key var = key"
    by auto
next
  assume "\<exists>var\<in>set vars. variation_key var = key"
  then have "key \<in> dom (build_variations_cache vars)"
    using foldl_cache_dom [of Map.empty vars] by (auto simp: build_variations_cache_def)
  then show "build_variations_cache vars key \<noteq> None"
    by auto
qed

lemma sort_map_values_all: "sort (map f (values_all rows)) = sort (map f rows)"
  by (rule properties_for_sort) (simp_all add: values_all_def)

lemma variation_key_signature:
  assumes "\<forall>v\<in>set (variation_values var). \<exists>p. pv_prop v = Some p \<and> identity p = pv_prop_id v"
  shows "variation_key var = signature (variation_values var)"
proof -
  have "map (\<lambda>v. (pv_prop_id v, identity v)) (variation_values var) =
        map (\<lambda>v. (prop_identity v, identity v)) (variation_values var)"
    using assms by (intro map_cong) (auto simp: prop_identity_def)
  then show ?thesis
    unfolding variation_key_def signature_def sort_map_values_all by (rule arg_cong)
qed

text \<open>
  \<open>itertools_product\<close> is the list library's product of lists, so the combinations
  are the product of the value counts in number; and the method returns whenever every
  value of every property resolves its \<^verbatim>\<open>prop\<close>.
\<close>

lemma product_step:
  "concat (map (\<lambda>y. map ((@) (x @ [y])) P) pool) =
     map ((@) x) (concat (map (\<lambda>y. map ((#) y) P) pool))"
  by (induction pool) (simp_all add: comp_def)

lemma foldl_product_lists:
  "foldl (\<lambda>result pool. concat (map (\<lambda>x. map (\<lambda>y. x @ [y]) pool) result)) acc pools =
     concat (map (\<lambda>x. map ((@) x) (product_lists pools)) acc)"
proof (induction pools arbitrary: acc)
  case Nil
  then show ?case by (induction acc) simp_all
next
  case (Cons pool pools)
  have "concat (map (\<lambda>x'. map ((@) x') (product_lists pools))
                 (concat (map (\<lambda>x. map (\<lambda>y. x @ [y]) pool) acc))) =
        concat (map (\<lambda>x. map ((@) x)
                 (concat (map (\<lambda>y. map ((#) y) (product_lists pools)) pool))) acc)"
    by (induction acc) (simp_all add: product_step comp_def)
  then show ?case
    by (simp add: Cons.IH)
qed

lemma itertools_product_product_lists: "itertools_product pools = product_lists pools"
  by (simp add: itertools_product_def foldl_product_lists map_idI)

lemma product_loop_total:
  "\<forall>comb\<in>set combs. \<forall>v\<in>set comb. pv_prop v \<noteq> None \<Longrightarrow>
     \<exists>result. product_loop variations_cache combs acc = Inr result"
proof (induction combs arbitrary: acc)
  case Nil
  then show ?case by simp
next
  case (Cons comb combs)
  then have "\<forall>v\<in>set comb. pv_prop v \<noteq> None"
    by simp
  from comb_loop_total [OF this] obtain k d where "comb_loop comb [] [] = Inr (k, d)"
    by blast
  with Cons show ?case
    by (simp add: Let_def)
qed

lemma compute_all_variations_total:
  assumes "\<forall>prop\<in>set (properties_all rel). \<forall>v\<in>set (snd prop). pv_prop v \<noteq> None"
  shows "\<exists>result. compute_all_variations rel = Inr result"
proof -
  have "\<forall>v\<in>set comb. pv_prop v \<noteq> None" if "comb \<in> set (combinations rel)" for comb
  proof -
    from that have l: "list_all2 (\<lambda>v rows. v \<in> set rows) comb
        (map (\<lambda>prop. values_all (snd prop)) (properties_all rel))"
      by (simp add: combinations_def itertools_product_product_lists product_lists_set)
    show ?thesis
    proof
      fix v
      assume "v \<in> set comb"
      then obtain i where i: "i < length comb" "comb ! i = v"
        by (auto simp: in_set_conv_nth)
      from l i have len: "i < length (properties_all rel)"
        by (auto dest: list_all2_lengthD)
      from list_all2_nthD [OF l i(1)] i(2) len
      have "v \<in> set (snd (properties_all rel ! i))"
        by (simp add: values_all_def)
      moreover from len have "properties_all rel ! i \<in> set (properties_all rel)"
        by simp
      ultimately show "pv_prop v \<noteq> None"
        using assms by blast
    qed
  qed
  then show ?thesis
    by (simp add: compute_all_variations_def product_loop_total)
qed

lemma length_combinations:
  "length (combinations rel) =
     foldr (*) (map (\<lambda>prop. length (snd prop)) (properties_all rel)) 1"
  by (simp add: combinations_def itertools_product_product_lists length_product_lists comp_def
        values_all_def)

lemma example_combinations:
  "combinations example_relations =
     [[value_M, value_red], [value_M, value_blue], [value_L, value_red], [value_L, value_blue]]"
  by (simp add: combinations_def itertools_product_def values_all_def example_relations_def
        example_properties_def value_M_def value_L_def value_red_def value_blue_def
        size_value_def colour_value_def)

lemma values_all_two:
  assumes "rows = [a, b] \<or> rows = [b, a]" and "pv_position a < pv_position b"
  shows "values_all rows = [a, b]"
  using assms by (auto simp: values_all_def)

lemma itertools_product_two:
  "itertools_product [[a, b], [x, y]] = [[a, x], [a, y], [b, x], [b, y]]"
  by (simp add: itertools_product_def)

lemma first_call:
  "get_all_variations example_item relations_before False =
     (Inr stale_result, example_item\<lparr>get_all_variations_cache := Some stale_result\<rparr>)"
  unfolding stale_result_def by code_simp

section \<open>Item.get_all_variations: overrides\<close>

text \<open>
  Claim C1. As amended. Let a call with \<^verbatim>\<open>use_cache=False\<close> return, and let every
  value attached to an ItemVariation of the item hold in its \<^verbatim>\<open>prop_id\<close> column the
  identity of the Property it resolves to. Then the returned bindings stand one for one,
  in order, for the combinations of the product; the binding of the empty combination has
  no override; the binding of a non-empty combination has an override if and only if some
  ItemVariation of the item has the combination's signature, and the override it has is
  such an ItemVariation; and when the properties of the combination's values are
  distinct, the binding's values are the combination.
\<close>

theorem get_all_variations_override:
  assumes ret: "fst (get_all_variations self rel False) = Inr result"
    and fk: "\<forall>var\<in>set (variations_all rel). \<forall>v\<in>set (variation_values var).
               \<exists>p. pv_prop v = Some p \<and> identity p = pv_prop_id v"
  shows "list_all2 (\<lambda>comb binding.
           if comb = [] then vd_variation binding = None
           else (vd_variation binding \<noteq> None \<longleftrightarrow>
                   (\<exists>var\<in>set (variations_all rel).
                      signature (variation_values var) = signature comb)) \<and>
                (\<forall>var. vd_variation binding = Some var \<longrightarrow>
                   var \<in> set (variations_all rel) \<and>
                   signature (variation_values var) = signature comb) \<and>
                (distinct (map prop_identity comb) \<longrightarrow> map snd (vd_values binding) = comb))
         (combinations rel) result"
proof -
  let ?vc = "build_variations_cache (variations_all rel)"
  have "product_loop ?vc (combinations rel) [] = Inr result"
    using ret
    by (auto simp: get_all_variations_def compute_all_variations_def split: sum.splits)
  from product_loop_Inr [OF this] have
    l: "list_all2 (\<lambda>comb binding.
         if comb = [] then binding = VariationDict
         else (\<forall>v\<in>set comb. pv_prop v \<noteq> None) \<and>
              vd_variation binding = ?vc (signature comb) \<and>
              vd_values binding = fold (\<lambda>v. AList.update (prop_identity v) v) comb [])
         (combinations rel) result"
    by simp
  have sig: "variation_key var = signature (variation_values var)"
    if "var \<in> set (variations_all rel)" for var
    using that fk by (intro variation_key_signature) blast
  have key: "(?vc k \<noteq> None) =
               (\<exists>var\<in>set (variations_all rel). signature (variation_values var) = k)" for k
    using sig unfolding variations_cache_defined by auto
  have found: "var \<in> set (variations_all rel) \<and> signature (variation_values var) = k"
    if "?vc k = Some var" for k var
    using variations_cache_Some [OF that] sig by auto
  show ?thesis
  proof (rule list_all2_mono [OF l])
    fix comb binding
    assume "if comb = [] then binding = VariationDict
            else (\<forall>v\<in>set comb. pv_prop v \<noteq> None) \<and>
              vd_variation binding = ?vc (signature comb) \<and>
              vd_values binding = fold (\<lambda>v. AList.update (prop_identity v) v) comb []"
    then show "if comb = [] then vd_variation binding = None
           else (vd_variation binding \<noteq> None \<longleftrightarrow>
                   (\<exists>var\<in>set (variations_all rel).
                      signature (variation_values var) = signature comb)) \<and>
                (\<forall>var. vd_variation binding = Some var \<longrightarrow>
                   var \<in> set (variations_all rel) \<and>
                   signature (variation_values var) = signature comb) \<and>
                (distinct (map prop_identity comb) \<longrightarrow> map snd (vd_values binding) = comb)"
      using key [of "signature comb"] found [of "signature comb"]
        fold_update_distinct [of prop_identity comb "[]"]
      by (auto simp: VariationDict_def comp_def split: if_splits)
  qed
qed

theorem get_all_variations_override_witness:
  "fst (get_all_variations example_item example_relations False) = Inr example_result \<and>
   map vd_variation example_result = [None, None, Some variation_L_red, None] \<and>
   signature (variation_values variation_L_red) = signature [value_L, value_red] \<and>
   list_all2 (\<lambda>comb binding.
           if comb = [] then vd_variation binding = None
           else (vd_variation binding \<noteq> None \<longleftrightarrow>
                   (\<exists>var\<in>set (variations_all example_relations).
                      signature (variation_values var) = signature comb)) \<and>
                (\<forall>var. vd_variation binding = Some var \<longrightarrow>
                   var \<in> set (variations_all example_relations) \<and>
                   signature (variation_values var) = signature comb) \<and>
                (distinct (map prop_identity comb) \<longrightarrow> map snd (vd_values binding) = comb))
         (combinations example_relations) example_result"
proof -
  have ret: "fst (get_all_variations example_item example_relations False) = Inr example_result"
    unfolding example_result_def by code_simp
  have fk: "\<forall>var\<in>set (variations_all example_relations). \<forall>v\<in>set (variation_values var).
              \<exists>p. pv_prop v = Some p \<and> identity p = pv_prop_id v"
    by (simp add: example_defs)
  have sig: "signature (variation_values variation_L_red) = signature [value_L, value_red]"
    by code_simp
  have ov: "map vd_variation example_result = [None, None, Some variation_L_red, None]"
    by (simp add: example_result_def)
  from get_all_variations_override [OF ret fk] ret sig ov show ?thesis
    by simp
qed

text \<open>
  The claim as stated fails on an item with no property: its one binding has no override,
  although an ItemVariation with the binding's (empty) signature exists.
\<close>

theorem get_all_variations_override_counterexample:
  "fst (get_all_variations example_item plain_relations False) = Inr [VariationDict] \<and>
   vd_variation VariationDict = None \<and>
   plain_variation \<in> set (variations_all plain_relations) \<and>
   signature (variation_values plain_variation) = signature (map snd (vd_values VariationDict))"
  by code_simp

section \<open>Item.get_all_variations: the order of the bindings\<close>

text \<open>
  Claim C7. For an item with two properties, the first with the values \<open>a\<close> and \<open>b\<close>
  and the second with \<open>x\<close> and \<open>y\<close>, stored in any order, \<open>a\<close> before \<open>b\<close> and \<open>x\<close>
  before \<open>y\<close> by position, a call returns exactly four bindings, (a, x), (a, y), (b, x),
  (b, y) in this order, each mapping the first property's identity to its first value and
  the second property's to its second; and a further call on the same data, with or
  without \<^verbatim>\<open>use_cache\<close>, returns the same list.
\<close>

theorem get_all_variations_product_order:
  assumes props: "properties_all rel = [(P1, rows1), (P2, rows2)]"
    and rows1: "rows1 = [a, b] \<or> rows1 = [b, a]" and pos1: "pv_position a < pv_position b"
    and rows2: "rows2 = [x, y] \<or> rows2 = [y, x]" and pos2: "pv_position x < pv_position y"
    and prop1: "map_option identity (pv_prop a) = Some i1" "map_option identity (pv_prop b) = Some i1"
    and prop2: "map_option identity (pv_prop x) = Some i2" "map_option identity (pv_prop y) = Some i2"
    and neq: "i1 \<noteq> i2"
  shows "\<exists>result.
           get_all_variations self rel False =
             (Inr result, self\<lparr>get_all_variations_cache := Some result\<rparr>) \<and>
           length result = 4 \<and>
           map vd_values result =
             [[(i1, a), (i2, x)], [(i1, a), (i2, y)], [(i1, b), (i2, x)], [(i1, b), (i2, y)]] \<and>
           (\<forall>use_cache.
              fst (get_all_variations (snd (get_all_variations self rel False)) rel use_cache) =
                Inr result)"
proof -
  have combs: "combinations rel = [[a, x], [a, y], [b, x], [b, y]]"
    by (simp add: combinations_def props values_all_two [OF rows1 pos1]
          values_all_two [OF rows2 pos2] itertools_product_two)
  from prop1 prop2 obtain pa pb px py where
    p: "pv_prop a = Some pa" "identity pa = i1" "pv_prop b = Some pb" "identity pb = i1"
       "pv_prop x = Some px" "identity px = i2" "pv_prop y = Some py" "identity py = i2"
    by auto
  have "\<exists>result. compute_all_variations rel = Inr result \<and>
          map vd_values result =
            [[(i1, a), (i2, x)], [(i1, a), (i2, y)], [(i1, b), (i2, x)], [(i1, b), (i2, y)]]"
    using neq by (simp add: compute_all_variations_def combs p Let_def)
  then obtain result where
    comp: "compute_all_variations rel = Inr result" and
    vals: "map vd_values result =
            [[(i1, a), (i2, x)], [(i1, a), (i2, y)], [(i1, b), (i2, x)], [(i1, b), (i2, y)]]"
    by (elim exE conjE)
  have first: "get_all_variations self rel False =
      (Inr result, self\<lparr>get_all_variations_cache := Some result\<rparr>)"
    using comp by (simp add: get_all_variations_def)
  have again: "fst (get_all_variations (self\<lparr>get_all_variations_cache := Some result\<rparr>) rel
                 use_cache) = Inr result" for use_cache
    using comp by (simp add: get_all_variations_def)
  from vals have "length (map vd_values result) = 4"
    by simp
  then have len: "length result = 4"
    by simp
  from first again vals len show ?thesis
    by (intro exI [of _ result]) simp
qed

theorem get_all_variations_product_order_witness:
  "map vd_values (projr (fst (get_all_variations example_item example_relations False))) =
     [[(''p-size'', value_M), (''p-colour'', value_red)],
      [(''p-size'', value_M), (''p-colour'', value_blue)],
      [(''p-size'', value_L), (''p-colour'', value_red)],
      [(''p-size'', value_L), (''p-colour'', value_blue)]] \<and>
   pv_position value_M < pv_position value_L \<and> pv_position value_red < pv_position value_blue"
proof -
  have props: "properties_all example_relations =
      [(size_property, [value_L, value_M]), (colour_property, [value_red, value_blue])]"
    by (simp add: example_relations_def example_properties_def)
  have rows1: "[value_L, value_M] = [value_M, value_L] \<or> [value_L, value_M] = [value_L, value_M]"
    by simp
  have rows2: "[value_red, value_blue] = [value_red, value_blue] \<or>
               [value_red, value_blue] = [value_blue, value_red]"
    by simp
  have pos1: "pv_position value_M < pv_position value_L"
    by (simp add: value_M_def value_L_def size_value_def)
  have pos2: "pv_position value_red < pv_position value_blue"
    by (simp add: value_red_def value_blue_def colour_value_def)
  have prop1: "map_option identity (pv_prop value_M) = Some ''p-size''"
    "map_option identity (pv_prop value_L) = Some ''p-size''"
    by (simp_all add: value_M_def value_L_def size_value_def size_property_def)
  have prop2: "map_option identity (pv_prop value_red) = Some ''p-colour''"
    "map_option identity (pv_prop value_blue) = Some ''p-colour''"
    by (simp_all add: value_red_def value_blue_def colour_value_def colour_property_def)
  have neq: "''p-size'' \<noteq> ''p-colour''"
    by simp
  from get_all_variations_product_order
         [OF props rows1 pos1 rows2 pos2 prop1 prop2 neq, of example_item]
  show ?thesis
    using pos1 pos2 by auto
qed

section \<open>Item.get_all_variations: an item with no property\<close>

text \<open>
  Claim C8. For an item with no property, a call that does not return a memo returns
  exactly one binding, \<^verbatim>\<open>VariationDict()\<close>, which has no property assignment and no
  override.
\<close>

theorem get_all_variations_no_properties:
  assumes "properties_all rel = []"
    and "use_cache \<longrightarrow> get_all_variations_cache self = None"
  shows "fst (get_all_variations self rel use_cache) = Inr [VariationDict] \<and>
         vd_values VariationDict = [] \<and> vd_variation VariationDict = None"
  using assms
  by (auto simp: get_all_variations_def compute_all_variations_def combinations_def
        itertools_product_def VariationDict_def)

theorem get_all_variations_no_properties_witness:
  "properties_all plain_relations = [] \<and>
   fst (get_all_variations example_item plain_relations True) = Inr [VariationDict] \<and>
   vd_values VariationDict = [] \<and> vd_variation VariationDict = None"
proof -
  have p: "properties_all plain_relations = []"
    by (simp add: plain_relations_def)
  have c: "True \<longrightarrow> get_all_variations_cache example_item = None"
    by (simp add: example_item_def)
  from get_all_variations_no_properties [OF p c] p show ?thesis
    by simp
qed

section \<open>Item.get_all_variations: the memo\<close>

text \<open>
  Claim C3. As amended. No write invalidates the memo of an Item instance. When the
  instance holds a memo, a call with \<^verbatim>\<open>use_cache=True\<close> returns the memo and leaves the
  instance as it is, whatever the database now holds; a call with \<^verbatim>\<open>use_cache=False\<close>
  that returns replaces the memo by the newly computed list; and
  \<^verbatim>\<open>ItemVariation.save\<close> writes the row and clears the cache of the item's event, which
  are all its effects.
\<close>

theorem get_all_variations_memo:
  assumes "get_all_variations_cache self = Some memo"
  shows "get_all_variations self rel True = (Inr memo, self) \<and>
         (\<forall>result. compute_all_variations rel = Inr result \<longrightarrow>
            get_all_variations self rel False =
              (Inr result, self\<lparr>get_all_variations_cache := Some result\<rparr>)) \<and>
         (\<forall>i ev. variation_item var = Some i \<and> item_event i = Some ev \<longrightarrow>
            ItemVariation_save var log =
              (Inr (), log @ [DbSave (EItemVariation var), CacheClear ev]))"
  using assms
  by (simp add: get_all_variations_def ItemVariation_save_def ItemVariation_clear_def
        Model_save_def get_cache_clear_def)

theorem get_all_variations_memo_witness:
  "get_all_variations (example_item\<lparr>get_all_variations_cache := Some stale_result\<rparr>)
     example_relations True =
     (Inr stale_result, example_item\<lparr>get_all_variations_cache := Some stale_result\<rparr>) \<and>
   get_all_variations (example_item\<lparr>get_all_variations_cache := Some stale_result\<rparr>)
     example_relations False =
     (Inr example_result, example_item\<lparr>get_all_variations_cache := Some example_result\<rparr>) \<and>
   ItemVariation_save variation_L_red [] =
     (Inr (), [DbSave (EItemVariation variation_L_red), CacheClear example_event])"
proof -
  have m: "get_all_variations_cache (example_item\<lparr>get_all_variations_cache := Some stale_result\<rparr>) =
             Some stale_result"
    by simp
  have c: "compute_all_variations example_relations = Inr example_result"
    unfolding example_result_def by code_simp
  have v: "variation_item variation_L_red = Some (item.truncate example_item) \<and>
           item_event (item.truncate example_item) = Some example_event"
    by (simp add: variation_L_red_def example_variation_def example_item_def item.defs)
  from get_all_variations_memo [OF m, of example_relations variation_L_red "[]"] c v
  show ?thesis
    by simp
qed

text \<open>
  The claim as stated fails: after a first call, the ItemVariation for (L, red) is saved
  (the row is written and the Event's cache cleared); a call with \<^verbatim>\<open>use_cache=True\<close>
  on the same instance still returns the first list, which differs from the list a call
  with \<^verbatim>\<open>use_cache=False\<close> computes.
\<close>

theorem get_all_variations_memo_counterexample:
  "get_all_variations example_item relations_before False =
     (Inr stale_result, example_item\<lparr>get_all_variations_cache := Some stale_result\<rparr>) \<and>
   ItemVariation_save variation_L_red [] =
     (Inr (), [DbSave (EItemVariation variation_L_red), CacheClear example_event]) \<and>
   fst (get_all_variations (example_item\<lparr>get_all_variations_cache := Some stale_result\<rparr>)
          example_relations True) = Inr stale_result \<and>
   fst (get_all_variations (example_item\<lparr>get_all_variations_cache := Some stale_result\<rparr>)
          example_relations False) = Inr example_result \<and>
   stale_result \<noteq> example_result"
proof -
  have a: "ItemVariation_save variation_L_red [] =
     (Inr (), [DbSave (EItemVariation variation_L_red), CacheClear example_event])"
    by (simp add: ItemVariation_save_def ItemVariation_clear_def Model_save_def
          get_cache_clear_def variation_L_red_def example_variation_def example_item_def
          item.defs)
  have b: "fst (get_all_variations (example_item\<lparr>get_all_variations_cache := Some stale_result\<rparr>)
          example_relations True) = Inr stale_result"
    by (simp add: get_all_variations_def)
  have c: "fst (get_all_variations (example_item\<lparr>get_all_variations_cache := Some stale_result\<rparr>)
          example_relations False) = Inr example_result"
    unfolding example_result_def stale_result_def by code_simp
  have d: "stale_result \<noteq> example_result"
    by (simp add: stale_result_def example_result_def)
  from first_call a b c d show ?thesis
    by simp
qed

section \<open>Item.delete\<close>

text \<open>
  Claim C9. \<^verbatim>\<open>Item.delete\<close> on an item with an event sets \<^verbatim>\<open>deleted\<close> and unsets
  \<^verbatim>\<open>active\<close>, changes no other field, saves the row (it deletes none), and then clears
  the cache of the event, once.
\<close>

theorem Item_delete_soft:
  assumes "item_event self = Some ev"
  shows "Item_delete self log =
           (self\<lparr>item_deleted := True, item_active := False\<rparr>,
            log @ [DbSave (EItem (item.truncate (self\<lparr>item_deleted := True, item_active := False\<rparr>))),
                   CacheClear ev]) \<and>
         item_deleted (fst (Item_delete self log)) \<and>
         \<not> item_active (fst (Item_delete self log)) \<and>
         length (filter (\<lambda>e. e = CacheClear ev) (drop (length log) (snd (Item_delete self log)))) = 1"
  using assms
  by (simp add: Item_delete_def Let_def Model_save_def clear_if_event_def get_cache_clear_def)

theorem Item_delete_soft_witness:
  "Item_delete example_item [] =
     (example_item\<lparr>item_deleted := True, item_active := False\<rparr>,
      [DbSave (EItem (item.truncate (example_item\<lparr>item_deleted := True, item_active := False\<rparr>))),
       CacheClear example_event]) \<and>
   item_active example_item"
proof -
  have e: "item_event example_item = Some example_event"
    by (simp add: example_item_def)
  from Item_delete_soft [OF e, of "[]"] show ?thesis
    by (simp add: example_item_def)
qed

section \<open>Cache invalidation by save and delete\<close>

text \<open>The models that override \<^verbatim>\<open>save\<close> and \<^verbatim>\<open>delete\<close> clear the event's cache last.\<close>

lemma ItemCategory_clears_last:
  "category_event self = Some ev \<Longrightarrow>
     last (ItemCategory_save self log) = CacheClear ev \<and>
     last (ItemCategory_delete self log) = CacheClear ev"
  by (simp add: ItemCategory_save_def ItemCategory_delete_def clear_if_event_def
        get_cache_clear_def)

lemma Property_clears_last:
  "property_event self = Some ev \<Longrightarrow>
     last (Property_save self log) = CacheClear ev \<and>
     last (Property_delete self log) = CacheClear ev"
  by (simp add: Property_save_def Property_delete_def clear_if_event_def get_cache_clear_def)

lemma PropertyValue_clears_last:
  "pv_prop self = Some p \<Longrightarrow> property_event p = Some ev \<Longrightarrow>
     last (snd (PropertyValue_save self log)) = CacheClear ev \<and>
     last (snd (PropertyValue_delete self log)) = CacheClear ev"
  by (simp add: PropertyValue_save_def PropertyValue_delete_def PropertyValue_clear_def
        get_cache_clear_def)

lemma Question_clears_last:
  "question_event self = Some ev \<Longrightarrow>
     last (Question_save self log) = CacheClear ev \<and>
     last (Question_delete self log) = CacheClear ev"
  by (simp add: Question_save_def Question_delete_def clear_if_event_def get_cache_clear_def)

lemma Item_clears_last:
  "item_event self = Some ev \<Longrightarrow>
     last (Item_save self log) = CacheClear ev \<and>
     last (snd (Item_delete self log)) = CacheClear ev"
  by (simp add: Item_save_def Item_delete_def Let_def clear_if_event_def get_cache_clear_def)

lemma ItemVariation_clears_last:
  "variation_item self = Some i \<Longrightarrow> item_event i = Some ev \<Longrightarrow>
     last (snd (ItemVariation_save self log)) = CacheClear ev \<and>
     last (snd (ItemVariation_delete self log)) = CacheClear ev"
  by (simp add: ItemVariation_save_def ItemVariation_delete_def ItemVariation_clear_def
        get_cache_clear_def)

lemma BaseRestriction_clears_last:
  "restriction_event self = Some ev \<Longrightarrow>
     last (BaseRestriction_save self log) = CacheClear ev \<and>
     last (BaseRestriction_delete self log) = CacheClear ev"
  by (simp add: BaseRestriction_save_def BaseRestriction_delete_def clear_if_event_def
        get_cache_clear_def)

lemma Quota_never_clears:
  "Quota_save self log = log @ [DbSave (EQuota self)] \<and>
   Quota_delete self log = log @ [DbDelete (EQuota self)]"
  by (simp add: Quota_save_def Quota_delete_def Model_save_def Model_delete_def)

text \<open>
  Claim C2. The claim fails for Quota: \<^verbatim>\<open>save\<close> and \<^verbatim>\<open>delete\<close> of a Quota that
  belongs to an event have one effect each, on the database, and do not clear the cache
  of the event.
\<close>

theorem Quota_save_delete_example:
  "quota_event example_quota = Some example_event \<and>
   Quota_save example_quota [] = [DbSave (EQuota example_quota)] \<and>
   Quota_delete example_quota [] = [DbDelete (EQuota example_quota)] \<and>
   last (Quota_save example_quota []) \<noteq> CacheClear example_event \<and>
   last (Quota_delete example_quota []) \<noteq> CacheClear example_event"
  by (simp add: Quota_save_def Quota_delete_def Model_save_def Model_delete_def
        example_quota_def)

section \<open>The labels of Order.STATUS_CHOICE\<close>

text \<open>
  Claim C4. \<^verbatim>\<open>STATUS_CHOICE\<close> pairs \<^verbatim>\<open>STATUS_PAID\<close>, which is "p", with the label
  "pending", and \<^verbatim>\<open>STATUS_PENDING\<close>, which is "n", with the label "paid".
\<close>

theorem STATUS_CHOICE_labels:
  "STATUS_PAID = ''p'' \<and> STATUS_PENDING = ''n'' \<and>
   (STATUS_PAID, ''pending'') \<in> set STATUS_CHOICE \<and>
   (STATUS_PENDING, ''paid'') \<in> set STATUS_CHOICE \<and>
   map_of STATUS_CHOICE STATUS_PAID = Some ''pending'' \<and>
   map_of STATUS_CHOICE STATUS_PENDING = Some ''paid''"
  by (simp add: STATUS_CHOICE_def STATUS_PAID_def STATUS_PENDING_def STATUS_EXPIRED_def
        STATUS_CANCELLED_def)

end
